theory Spec2Isabelle
  imports Main "HOL-Library.Word"
begin

unbundle bit_operations_syntax

section \<open>The TCP connection monitor (net/tcp/tcp_monitor.c)\<close>

text \<open>
  The monitor couples sockets to a TCP connection: every monitored socket owns one
  callback record in the connection's \<open>connevents\<close> list, and connection events
  delivered through that list update the socket's status flags.  The embedding below
  follows \<open>tcp_monitor.c\<close> function by function.  The network lock is not modelled:
  every function of the file runs with the lock held, so each is one atomic state
  transformer.
\<close>

subsection \<open>Header constants\<close>

text \<open>
  The event bits (\<open>TCP_CLOSE\<close>, ...), the socket status bits (\<open>_SF_CONNECTED\<close>, ...)
  and the TCP state codes are macros of headers that are not part of the sources at
  hand.  They are taken as parameters: a record of values that every function receives.
  Event sets are \<open>uint16_t\<close>; the socket status flags and \<open>tcpstateflags\<close> are bytes.
  A leading underscore is not a legal name here, so \<open>_SF_X\<close> is written \<open>SF_X\<close>.
\<close>

record netdefs =
  TCP_CLOSE :: "16 word"
  TCP_ABORT :: "16 word"
  TCP_TIMEDOUT :: "16 word"
  NETDEV_DOWN :: "16 word"
  TCP_CONNECTED :: "16 word"
  SF_BOUND :: "8 word"
  SF_CONNECTED :: "8 word"
  SF_CLOSED :: "8 word"
  SF_NONBLOCK :: "8 word"
  TCP_SYN_RCVD :: "8 word"
  TCP_SYN_SENT :: "8 word"
  TCP_ESTABLISHED :: "8 word"

text \<open>
  Modelled from the spec: the macro \<open>TCP_DISCONN_EVENTS\<close> is not in the sources; the
  spec defines it as \<open>CLOSE | ABORT | TIMEDOUT | NETDEV_DOWN\<close>, and the comment in
  \<open>tcp_monitor_event\<close> lists the same four events.
\<close>

definition TCP_DISCONN_EVENTS :: "netdefs \<Rightarrow> 16 word" where
  "TCP_DISCONN_EVENTS k = TCP_CLOSE k OR TCP_ABORT k OR TCP_TIMEDOUT k OR NETDEV_DOWN k"

text \<open>
  What the headers guarantee about the values: the flags of one bitset are non-zero and
  share no bit, and the state codes differ.
\<close>

fun bits_apart :: "'a::len word list \<Rightarrow> bool" where
  "bits_apart [] = True"
| "bits_apart (x # xs) = (x \<noteq> 0 \<and> list_all (\<lambda>y. x AND y = 0) xs \<and> bits_apart xs)"

definition defs_ok :: "netdefs \<Rightarrow> bool" where
  "defs_ok k \<longleftrightarrow>
     bits_apart [TCP_CLOSE k, TCP_ABORT k, TCP_TIMEDOUT k, NETDEV_DOWN k, TCP_CONNECTED k] \<and>
     bits_apart [SF_BOUND k, SF_CONNECTED k, SF_CLOSED k, SF_NONBLOCK k] \<and>
     distinct [TCP_SYN_RCVD k, TCP_SYN_SENT k, TCP_ESTABLISHED k]"

text \<open>One assignment of values that meets \<open>defs_ok\<close>, used for concrete runs.\<close>

definition sample_defs :: netdefs where
  "sample_defs = \<lparr>TCP_CLOSE = 0x40, TCP_ABORT = 0x80, TCP_TIMEDOUT = 0x200,
     NETDEV_DOWN = 0x8000, TCP_CONNECTED = 0x100,
     SF_BOUND = 0x20, SF_CONNECTED = 0x40, SF_CLOSED = 0x80, SF_NONBLOCK = 0x08,
     TCP_SYN_RCVD = 2, TCP_SYN_SENT = 3, TCP_ESTABLISHED = 4\<rparr>"

subsection \<open>Sockets, callback records, connections\<close>

text \<open>
  Objects live in a store indexed by address.  A pointer that may be \<open>NULL\<close> is an
  \<open>option\<close>.  Of \<open>struct socket\<close> the monitor touches \<open>s_flags\<close>, the error number
  (through \<open>_SO_SETERRNO\<close>) and reads \<open>s_conn\<close>, which the entry points assert to be
  non-null.
\<close>

record socket =
  s_flags :: "8 word"
  s_error :: int
  s_conn :: nat

text \<open>
  Modelled from the spec: the macro \<open>_SS_ISNONBLOCK\<close> is not in the sources; the spec
  reads it as "socket has NONBLOCK".  The two observers of the connection state pair
  are the spec's \<open>CONNECTED\<close> and \<open>CLOSED\<close> columns.
\<close>

definition SS_ISNONBLOCK :: "netdefs \<Rightarrow> 8 word \<Rightarrow> bool" where
  "SS_ISNONBLOCK k f \<longleftrightarrow> f AND SF_NONBLOCK k \<noteq> 0"

definition SS_ISCONNECTED :: "netdefs \<Rightarrow> 8 word \<Rightarrow> bool" where
  "SS_ISCONNECTED k f \<longleftrightarrow> f AND SF_CONNECTED k \<noteq> 0"

definition SS_ISCLOSED :: "netdefs \<Rightarrow> 8 word \<Rightarrow> bool" where
  "SS_ISCLOSED k f \<longleftrightarrow> f AND SF_CLOSED k \<noteq> 0"

subsection \<open>tcp_close_connection\<close>

text \<open>
  The function receives the socket structure and returns it updated.  The first test is
  on \<open>TCP_CLOSE\<close>, the second on the three other loss events; with neither, the socket
  is returned as it came.
\<close>

definition tcp_close_connection :: "netdefs \<Rightarrow> socket \<Rightarrow> 16 word \<Rightarrow> socket" where
  "tcp_close_connection k psock flags =
     (if flags AND TCP_CLOSE k \<noteq> 0 then
        psock\<lparr>s_flags := (s_flags psock AND NOT (SF_CONNECTED k)) OR SF_CLOSED k\<rparr>
      else if flags AND (TCP_ABORT k OR TCP_TIMEDOUT k OR NETDEV_DOWN k) \<noteq> 0 then
        psock\<lparr>s_flags := s_flags psock AND NOT (SF_CONNECTED k OR SF_CLOSED k)\<rparr>
      else psock)"

subsection \<open>tcp_monitor_event\<close>

text \<open>
  A callback record of the connection's event list.  The link \<open>nxtconn\<close> is not a
  field here: the list of a connection is kept as the list of the addresses of its
  records, head first.  The C fields \<open>flags\<close>, \<open>priv\<close> and \<open>event\<close> carry the prefix
  \<open>cb_\<close>.  The only function this file installs as \<open>event\<close> is
  \<open>tcp_monitor_event\<close>, so a non-null function pointer is that one handler.
\<close>

datatype event_handler = Tcp_monitor_event

record devif_callback =
  cb_flags :: "16 word"
  cb_priv :: "nat option"
  cb_event :: "event_handler option"

record tcp_conn =
  tcpstateflags :: "8 word"
  connevents :: "nat list"

text \<open>
  The state: the sockets, the connections and the callback records by address, and the
  free list of the callback pool.
\<close>

record netstate =
  socks :: "nat \<Rightarrow> socket"
  conns :: "nat \<Rightarrow> tcp_conn"
  cbs :: "nat \<Rightarrow> devif_callback"
  cbfree :: "nat list"

text \<open>
  The handler.  \<open>pvpriv\<close> is the socket the record was registered for; the device and
  the connection arguments are not used by the enabled code.  Loss events are tested
  first, \<open>TCP_CONNECTED\<close> only in the \<open>else\<close> branch.  \<open>_SO_SETERRNO(psock, OK)\<close> stores
  0 as the socket's error.  The flags are returned as they came.
\<close>

definition tcp_monitor_event ::
  "netdefs \<Rightarrow> nat option \<Rightarrow> 16 word \<Rightarrow> netstate \<Rightarrow> 16 word \<times> netstate" where
  "tcp_monitor_event k pvpriv flags st =
     (case pvpriv of
        None \<Rightarrow> (flags, st)
      | Some psock \<Rightarrow>
          (flags,
           if flags AND TCP_DISCONN_EVENTS k \<noteq> 0 then
             st\<lparr>socks := (socks st)
                  (psock := tcp_close_connection k (socks st psock) flags)\<rparr>
           else if flags AND TCP_CONNECTED k \<noteq> 0 then
             st\<lparr>socks := (socks st)
                  (psock := (socks st psock)
                     \<lparr>s_error := 0,
                      s_flags := (s_flags (socks st psock) OR
                                    (SF_BOUND k OR SF_CONNECTED k)) AND
                                 NOT (SF_CLOSED k)\<rparr>)\<rparr>
           else st))"

subsection \<open>The callback pool and the dispatch primitive\<close>

text \<open>
  Modelled from the spec: \<open>devif_callback_alloc\<close> is not in the sources.  The spec's
  contract: allocation is from a fixed pool and may fail (a null result); on success
  the new record is prepended to the list identified by the list head.
\<close>

definition devif_callback_alloc :: "nat \<Rightarrow> netstate \<Rightarrow> nat option \<times> netstate" where
  "devif_callback_alloc conn st =
     (case cbfree st of
        [] \<Rightarrow> (None, st)
      | cb # rest \<Rightarrow>
          (Some cb,
           st\<lparr>cbfree := rest,
              conns := (conns st)
                (conn := (conns st conn)
                   \<lparr>connevents := cb # connevents (conns st conn)\<rparr>)\<rparr>))"

text \<open>
  Modelled from the spec: \<open>devif_conn_callback_free\<close> is not in the sources.  The
  spec's contract: free removes the record from the list and gives it back to the
  pool.
\<close>

definition devif_conn_callback_free :: "nat \<Rightarrow> nat \<Rightarrow> netstate \<Rightarrow> netstate" where
  "devif_conn_callback_free cb conn st =
     st\<lparr>conns := (conns st)
          (conn := (conns st conn)
             \<lparr>connevents := remove1 cb (connevents (conns st conn))\<rparr>),
        cbfree := cb # cbfree st\<rparr>"

text \<open>
  Modelled from the spec: \<open>tcp_callback\<close> is not in the sources.  The spec's
  contract: it walks the callback list of the connection, head first, taking the next
  link before a handler runs; a record takes part with its filter mask and its handler
  (a record whose handler is null, or whose filter has none of the delivered bits, is
  passed over); the handler's result is the flag set for the handlers after it.
\<close>

fun call_event :: "netdefs \<Rightarrow> event_handler \<Rightarrow> nat option \<Rightarrow> 16 word \<Rightarrow> netstate \<Rightarrow>
    16 word \<times> netstate" where
  "call_event k Tcp_monitor_event pvpriv flags st = tcp_monitor_event k pvpriv flags st"

fun dispatch :: "netdefs \<Rightarrow> nat list \<Rightarrow> 16 word \<Rightarrow> netstate \<Rightarrow> 16 word \<times> netstate" where
  "dispatch k [] flags st = (flags, st)"
| "dispatch k (cb # nxt) flags st =
     (case cb_event (cbs st cb) of
        None \<Rightarrow> dispatch k nxt flags st
      | Some h \<Rightarrow>
          if flags AND cb_flags (cbs st cb) \<noteq> 0 then
            (let r = call_event k h (cb_priv (cbs st cb)) flags st
             in dispatch k nxt (fst r) (snd r))
          else dispatch k nxt flags st)"

definition tcp_callback :: "netdefs \<Rightarrow> nat \<Rightarrow> 16 word \<Rightarrow> netstate \<Rightarrow> 16 word \<times> netstate" where
  "tcp_callback k conn flags st = dispatch k (connevents (conns st conn)) flags st"

subsection \<open>tcp_shutdown_monitor and tcp_stop_monitor\<close>

text \<open>
  The \<open>while\<close> loop of \<open>tcp_shutdown_monitor\<close>: as long as the list has a head, free the
  head.  It ends because each free shortens the list.
\<close>

function free_connevents :: "nat \<Rightarrow> netstate \<Rightarrow> netstate" where
  "free_connevents conn st =
     (case connevents (conns st conn) of
        [] \<Rightarrow> st
      | cb # _ \<Rightarrow> free_connevents conn (devif_conn_callback_free cb conn st))"
  by pat_completeness auto
termination
  by (relation "measure (\<lambda>(conn, st). length (connevents (conns st conn)))")
    (auto simp: devif_conn_callback_free_def)

declare free_connevents.simps [simp del]

definition tcp_shutdown_monitor :: "netdefs \<Rightarrow> nat \<Rightarrow> 16 word \<Rightarrow> netstate \<Rightarrow> netstate" where
  "tcp_shutdown_monitor k conn flags st =
     free_connevents conn (snd (tcp_callback k conn flags st))"

definition tcp_stop_monitor :: "netdefs \<Rightarrow> nat \<Rightarrow> 16 word \<Rightarrow> netstate \<Rightarrow> netstate" where
  "tcp_stop_monitor k conn flags st = tcp_shutdown_monitor k conn flags st"

subsection \<open>tcp_start_monitor\<close>

text \<open>
  The result is \<open>OK\<close> (\<open>Inr ()\<close>) or the negated errno \<open>-ENOTCONN\<close> (\<open>Inl ENOTCONN\<close>),
  together with the state the call leaves.
\<close>

datatype errno = ENOTCONN

definition tcp_start_monitor :: "netdefs \<Rightarrow> nat \<Rightarrow> netstate \<Rightarrow> (errno + unit) \<times> netstate" where
  "tcp_start_monitor k psock st =
     (let conn = s_conn (socks st psock);
          nonblock_conn = (tcpstateflags (conns st conn) = TCP_SYN_SENT k \<and>
                           SS_ISNONBLOCK k (s_flags (socks st psock)))
      in if \<not> (tcpstateflags (conns st conn) = TCP_ESTABLISHED k \<or>
                tcpstateflags (conns st conn) = TCP_SYN_RCVD k \<or> nonblock_conn) then
           (Inl ENOTCONN, tcp_shutdown_monitor k conn (TCP_CLOSE k) st)
         else
           (case devif_callback_alloc conn st of
              (None, st1) \<Rightarrow> (Inr (), st1)
            | (Some cb, st1) \<Rightarrow>
                (Inr (),
                 st1\<lparr>cbs := (cbs st1)
                      (cb := (cbs st1 cb)
                         \<lparr>cb_event := Some Tcp_monitor_event,
                          cb_priv := Some psock,
                          cb_flags := (if nonblock_conn
                                       then TCP_DISCONN_EVENTS k OR TCP_CONNECTED k
                                       else TCP_DISCONN_EVENTS k)\<rparr>)\<rparr>)))"

subsection \<open>tcp_close_monitor\<close>

text \<open>
  The \<open>for\<close> loop stops at the first record whose \<open>priv\<close> is the socket, or at the end
  of the list; that is \<open>find\<close>.  The notification loop after it is disabled in the
  source (\<open>#if 0\<close>) and has no counterpart here.
\<close>

definition tcp_close_monitor :: "netdefs \<Rightarrow> nat \<Rightarrow> netstate \<Rightarrow> netstate" where
  "tcp_close_monitor k psock st =
     (let conn = s_conn (socks st psock);
          cb = find (\<lambda>c. cb_priv (cbs st c) = Some psock) (connevents (conns st conn));
          st1 = (case cb of
                   None \<Rightarrow> st
                 | Some c \<Rightarrow> devif_conn_callback_free c conn st)
      in st1\<lparr>socks := (socks st1)
              (psock := tcp_close_connection k (socks st1 psock) (TCP_CLOSE k))\<rparr>)"

subsection \<open>tcp_lost_connection\<close>

definition tcp_lost_connection ::
  "netdefs \<Rightarrow> nat \<Rightarrow> nat option \<Rightarrow> 16 word \<Rightarrow> netstate \<Rightarrow> netstate" where
  "tcp_lost_connection k psock cb flags st =
     (let st1 = (case cb of
                   None \<Rightarrow> st
                 | Some c \<Rightarrow>
                     st\<lparr>cbs := (cbs st)
                          (c := (cbs st c)
                             \<lparr>cb_flags := 0, cb_priv := None, cb_event := None\<rparr>)\<rparr>);
          st2 = st1\<lparr>socks := (socks st1)
                  (psock := tcp_close_connection k (socks st1 psock) flags)\<rparr>
      in tcp_shutdown_monitor k (s_conn (socks st2 psock)) flags st2)"

subsection \<open>Auxiliary notions for the proofs\<close>

text \<open>
  What one run of \<open>tcp_monitor_event\<close> does to the socket it is registered for, and
  the test whether a delivery of \<open>flags\<close> along a list of records reaches a record
  registered for the socket at address \<open>a\<close>.
\<close>

definition event_update :: "netdefs \<Rightarrow> 16 word \<Rightarrow> socket \<Rightarrow> socket" where
  "event_update k flags s =
     (if flags AND TCP_DISCONN_EVENTS k \<noteq> 0 then tcp_close_connection k s flags
      else if flags AND TCP_CONNECTED k \<noteq> 0 then
        s\<lparr>s_error := 0,
          s_flags := (s_flags s OR (SF_BOUND k OR SF_CONNECTED k)) AND NOT (SF_CLOSED k)\<rparr>
      else s)"

definition reaches :: "netstate \<Rightarrow> nat list \<Rightarrow> 16 word \<Rightarrow> nat \<Rightarrow> bool" where
  "reaches st l flags a \<longleftrightarrow>
     list_ex (\<lambda>cb. cb_event (cbs st cb) \<noteq> None \<and> flags AND cb_flags (cbs st cb) \<noteq> 0 \<and>
                   cb_priv (cbs st cb) = Some a) l"

text \<open>
  The spec's table of socket states admits \<open>(CONNECTED, CLOSED)\<close> = (1,0), (0,1) and
  (0,0); \<open>flags_valid\<close> excludes (1,1).  \<open>other_bits\<close> is what is left of the status
  flags when the three bits the monitor writes are masked out.
\<close>

definition flags_valid :: "netdefs \<Rightarrow> 8 word \<Rightarrow> bool" where
  "flags_valid k f \<longleftrightarrow> \<not> (SS_ISCONNECTED k f \<and> SS_ISCLOSED k f)"

definition other_bits :: "netdefs \<Rightarrow> 8 word \<Rightarrow> 8 word" where
  "other_bits k f = f AND NOT (SF_BOUND k OR SF_CONNECTED k OR SF_CLOSED k)"

subsection \<open>Two concrete states\<close>

text \<open>
  \<open>dup_state\<close>: connection 0 is established and monitored by sockets 1 and 2 (records
  10 and 11, registered in that order, each with the filter \<open>TCP_DISCONN_EVENTS\<close>); the
  pool is exhausted; every socket has \<open>CONNECTED\<close> and \<open>NONBLOCK\<close> set and refers to
  connection 0.  \<open>closed_state\<close> is the same with connection 0 in the state coded 0,
  which is none of the three states \<open>tcp_start_monitor\<close> accepts.
\<close>

definition dup_state :: netstate where
  "dup_state =
     \<lparr>socks = (\<lambda>_. \<lparr>s_flags = 0x48, s_error = 0, s_conn = 0\<rparr>),
      conns = (\<lambda>_. \<lparr>tcpstateflags = 0, connevents = []\<rparr>)
                (0 := \<lparr>tcpstateflags = 4, connevents = [11, 10]\<rparr>),
      cbs = (\<lambda>_. \<lparr>cb_flags = 0, cb_priv = None, cb_event = None\<rparr>)
              (10 := \<lparr>cb_flags = 0x82C0, cb_priv = Some 1,
                      cb_event = Some Tcp_monitor_event\<rparr>,
               11 := \<lparr>cb_flags = 0x82C0, cb_priv = Some 2,
                      cb_event = Some Tcp_monitor_event\<rparr>),
      cbfree = []\<rparr>"

definition closed_state :: netstate where
  "closed_state =
     dup_state\<lparr>conns := (conns dup_state)
                 (0 := \<lparr>tcpstateflags = 0, connevents = [11, 10]\<rparr>)\<rparr>"

section \<open>Facts about the header constants\<close>

lemma sample_defs_ok: "defs_ok sample_defs"
  by (simp add: defs_ok_def sample_defs_def)

lemma defs_ok_sf:
  assumes "defs_ok k"
  shows "SF_CONNECTED k AND SF_CLOSED k = 0" and "SF_CLOSED k AND SF_CONNECTED k = 0"
    and "SF_CLOSED k \<noteq> 0" and "SF_CONNECTED k \<noteq> 0"
    and "SF_BOUND k AND SF_NONBLOCK k = 0" and "SF_CONNECTED k AND SF_NONBLOCK k = 0"
    and "SF_CLOSED k AND SF_NONBLOCK k = 0"
  using assms by (simp_all add: defs_ok_def and.commute)

lemma defs_ok_ev:
  assumes "defs_ok k"
  shows "TCP_CLOSE k \<noteq> 0" and "TCP_ABORT k \<noteq> 0"
    and "TCP_CLOSE k AND TCP_ABORT k = 0" and "TCP_ABORT k AND TCP_CLOSE k = 0"
    and "TCP_CONNECTED k \<noteq> 0"
  using assms by (simp_all add: defs_ok_def and.commute)

lemma word_and_or_nonzero:
  fixes f :: "'a::len word"
  shows "f AND (a OR b) \<noteq> 0 \<longleftrightarrow> f AND a \<noteq> 0 \<or> f AND b \<noteq> 0"
  by (simp add: bit.conj_disj_distrib or_eq_0_iff)

lemma close_graceful_flags:
  assumes "defs_ok k"
  shows "\<not> SS_ISCONNECTED k ((f AND NOT (SF_CONNECTED k)) OR SF_CLOSED k)"
    and "SS_ISCLOSED k ((f AND NOT (SF_CONNECTED k)) OR SF_CLOSED k)"
  using defs_ok_sf [OF assms]
  by (simp_all add: SS_ISCONNECTED_def SS_ISCLOSED_def bit.conj_disj_distrib2
      and.assoc)

lemma close_rude_flags:
  shows "\<not> SS_ISCONNECTED k (f AND NOT (SF_CONNECTED k OR SF_CLOSED k))"
    and "\<not> SS_ISCLOSED k (f AND NOT (SF_CONNECTED k OR SF_CLOSED k))"
  by (auto simp add: SS_ISCONNECTED_def SS_ISCLOSED_def bit_eq_iff bit_and_iff
      bit_not_iff bit_or_iff)

section \<open>How the operations act on the state\<close>

lemma connected_twice:
  fixes f :: "'a::len word"
  shows "(((f OR m) AND NOT c) OR m) AND NOT c = (f OR m) AND NOT c"
  by (auto simp add: bit_eq_iff bit_and_iff bit_not_iff bit_or_iff)

lemma graceful_twice:
  fixes f :: "'a::len word"
  shows "(((f AND NOT c) OR d) AND NOT c) OR d = (f AND NOT c) OR d"
  by (auto simp add: bit_eq_iff bit_and_iff bit_not_iff bit_or_iff)

lemma rude_twice:
  fixes f :: "'a::len word"
  shows "(f AND NOT m) AND NOT m = f AND NOT m"
  by (auto simp add: bit_eq_iff bit_and_iff bit_not_iff bit_or_iff)

lemma close_connection_twice:
  "tcp_close_connection k (tcp_close_connection k psock f) f =
     tcp_close_connection k psock f"
  by (simp add: tcp_close_connection_def graceful_twice rude_twice)

lemma event_update_twice:
  "event_update k f (event_update k f s) = event_update k f s"
  by (simp add: event_update_def close_connection_twice connected_twice)

lemma tcp_monitor_event_fst [simp]: "fst (tcp_monitor_event k pv f st) = f"
  by (simp add: tcp_monitor_event_def split: option.split)

lemma tcp_monitor_event_frame [simp]:
  "conns (snd (tcp_monitor_event k pv f st)) = conns st"
  "cbs (snd (tcp_monitor_event k pv f st)) = cbs st"
  "cbfree (snd (tcp_monitor_event k pv f st)) = cbfree st"
  by (simp_all add: tcp_monitor_event_def split: option.split)

lemma tcp_monitor_event_socks:
  "socks (snd (tcp_monitor_event k pv f st)) a =
     (if pv = Some a then event_update k f (socks st a) else socks st a)"
  by (auto simp add: tcp_monitor_event_def event_update_def split: option.split)

lemma call_event_fst [simp]: "fst (call_event k h pv f st) = f"
  by (cases h) simp

lemma call_event_frame [simp]:
  "conns (snd (call_event k h pv f st)) = conns st"
  "cbs (snd (call_event k h pv f st)) = cbs st"
  "cbfree (snd (call_event k h pv f st)) = cbfree st"
  by (cases h; simp)+

lemma call_event_socks:
  "socks (snd (call_event k h pv f st)) a =
     (if pv = Some a then event_update k f (socks st a) else socks st a)"
  by (cases h) (simp add: tcp_monitor_event_socks)

lemma reaches_cong: "cbs st' = cbs st \<Longrightarrow> reaches st' l f a = reaches st l f a"
  by (simp add: reaches_def)

lemma reaches_Nil [simp]: "reaches st [] f a = False"
  by (simp add: reaches_def)

lemma reaches_Cons:
  "reaches st (cb # l) f a \<longleftrightarrow>
     (cb_event (cbs st cb) \<noteq> None \<and> f AND cb_flags (cbs st cb) \<noteq> 0 \<and>
      cb_priv (cbs st cb) = Some a) \<or> reaches st l f a"
  by (simp add: reaches_def)

lemma dispatch_fst [simp]: "fst (dispatch k l f st) = f"
  by (induction l arbitrary: st) (auto split: option.split simp: Let_def)

lemma dispatch_frame [simp]:
  "conns (snd (dispatch k l f st)) = conns st"
  "cbs (snd (dispatch k l f st)) = cbs st"
  "cbfree (snd (dispatch k l f st)) = cbfree st"
  by (induction l arbitrary: st; auto split: option.split simp: Let_def)+

lemma dispatch_socks:
  "socks (snd (dispatch k l f st)) a =
     (if reaches st l f a then event_update k f (socks st a) else socks st a)"
proof (induction l arbitrary: st)
  case Nil
  show ?case by simp
next
  case (Cons cb nxt)
  show ?case
  proof (cases "cb_event (cbs st cb)")
    case None
    then show ?thesis by (simp add: Cons.IH reaches_Cons)
  next
    case (Some h)
    show ?thesis
    proof (cases "f AND cb_flags (cbs st cb) \<noteq> 0")
      case False
      with Some show ?thesis by (simp add: Cons.IH reaches_Cons)
    next
      case True
      let ?st' = "snd (call_event k h (cb_priv (cbs st cb)) f st)"
      have step: "snd (dispatch k (cb # nxt) f st) = snd (dispatch k nxt f ?st')"
        using Some True by (simp add: Let_def)
      have r: "reaches ?st' nxt f a = reaches st nxt f a"
        by (rule reaches_cong) simp
      show ?thesis
        using Some True
        by (simp only: step Cons.IH r call_event_socks reaches_Cons)
          (simp add: event_update_twice)
    qed
  qed
qed

lemma free_connevents_closed:
  "free_connevents conn st =
     st\<lparr>conns := (conns st)(conn := (conns st conn)\<lparr>connevents := []\<rparr>),
        cbfree := rev (connevents (conns st conn)) @ cbfree st\<rparr>"
proof (induction "connevents (conns st conn)" arbitrary: st)
  case Nil
  then have e: "connevents (conns st conn) = []" by simp
  then have t: "(conns st conn)\<lparr>connevents := []\<rparr> = conns st conn"
    by (cases "conns st conn") simp
  show ?case
    by (subst free_connevents.simps) (simp add: e t)
next
  case (Cons cb xs)
  let ?st' = "devif_conn_callback_free cb conn st"
  have l: "connevents (conns st conn) = cb # xs" using Cons.hyps(2) by simp
  have xs: "xs = connevents (conns ?st' conn)"
    by (simp add: devif_conn_callback_free_def l)
  have "free_connevents conn st = free_connevents conn ?st'"
    by (subst free_connevents.simps) (simp add: l)
  also have "\<dots> = ?st'\<lparr>conns := (conns ?st')(conn := (conns ?st' conn)\<lparr>connevents := []\<rparr>),
        cbfree := rev (connevents (conns ?st' conn)) @ cbfree ?st'\<rparr>"
    by (rule Cons.hyps(1) [OF xs])
  also have "\<dots> = st\<lparr>conns := (conns st)(conn := (conns st conn)\<lparr>connevents := []\<rparr>),
        cbfree := rev (connevents (conns st conn)) @ cbfree st\<rparr>"
    by (simp add: devif_conn_callback_free_def l)
  finally show ?case .
qed

lemma free_connevents_fields:
  "socks (free_connevents conn st) = socks st"
  "cbs (free_connevents conn st) = cbs st"
  "connevents (conns (free_connevents conn st) conn) = []"
  "cbfree (free_connevents conn st) = rev (connevents (conns st conn)) @ cbfree st"
  by (simp_all add: free_connevents_closed)

lemma tcp_shutdown_monitor_socks:
  "socks (tcp_shutdown_monitor k conn f st) a =
     (if reaches st (connevents (conns st conn)) f a
      then event_update k f (socks st a) else socks st a)"
  by (simp add: tcp_shutdown_monitor_def tcp_callback_def free_connevents_fields
      dispatch_socks)

lemma tcp_shutdown_monitor_cbs:
  "cbs (tcp_shutdown_monitor k conn f st) = cbs st"
  by (simp add: tcp_shutdown_monitor_def tcp_callback_def free_connevents_fields)

lemma tcp_shutdown_monitor_list:
  "connevents (conns (tcp_shutdown_monitor k conn f st) conn) = []"
  by (simp add: tcp_shutdown_monitor_def free_connevents_fields)

lemma tcp_shutdown_monitor_pool:
  "cbfree (tcp_shutdown_monitor k conn f st) = rev (connevents (conns st conn)) @ cbfree st"
  by (simp add: tcp_shutdown_monitor_def tcp_callback_def free_connevents_fields)

lemma tcp_start_monitor_socks:
  "socks (snd (tcp_start_monitor k p st)) a =
     (if tcpstateflags (conns st (s_conn (socks st p))) = TCP_ESTABLISHED k \<or>
         tcpstateflags (conns st (s_conn (socks st p))) = TCP_SYN_RCVD k \<or>
         (tcpstateflags (conns st (s_conn (socks st p))) = TCP_SYN_SENT k \<and>
          SS_ISNONBLOCK k (s_flags (socks st p)))
      then socks st a
      else socks (tcp_shutdown_monitor k (s_conn (socks st p)) (TCP_CLOSE k) st) a)"
  by (simp add: tcp_start_monitor_def devif_callback_alloc_def Let_def
      split: list.split)

lemma tcp_close_monitor_socks:
  "socks (tcp_close_monitor k p st) a =
     (if a = p then tcp_close_connection k (socks st p) (TCP_CLOSE k) else socks st a)"
  by (simp add: tcp_close_monitor_def devif_conn_callback_free_def Let_def
      split: option.split)

lemma tcp_lost_connection_socks:
  "socks (tcp_lost_connection k p cb f st) a =
     socks (tcp_shutdown_monitor k (s_conn (socks st p)) f
       ((case cb of None \<Rightarrow> st
         | Some c \<Rightarrow> st\<lparr>cbs := (cbs st)
             (c := (cbs st c)\<lparr>cb_flags := 0, cb_priv := None, cb_event := None\<rparr>)\<rparr>)
        \<lparr>socks := (socks st)(p := tcp_close_connection k (socks st p) f)\<rparr>)) a"
  by (cases cb) (simp_all add: tcp_lost_connection_def Let_def tcp_close_connection_def)

lemma close_as_event:
  "tcp_close_connection k s f = s \<or> tcp_close_connection k s f = event_update k f s"
proof (cases "f AND TCP_DISCONN_EVENTS k \<noteq> 0")
  case True
  then show ?thesis by (simp add: event_update_def)
next
  case False
  then have "f AND TCP_CLOSE k = 0"
    and "f AND (TCP_ABORT k OR TCP_TIMEDOUT k OR NETDEV_DOWN k) = 0"
    by (simp_all add: TCP_DISCONN_EVENTS_def bit.conj_disj_distrib or_eq_0_iff)
  then show ?thesis by (simp add: tcp_close_connection_def)
qed

lemma tcp_monitor_event_effect:
  "socks (snd (tcp_monitor_event k pv f st)) a = socks st a \<or>
   socks (snd (tcp_monitor_event k pv f st)) a = event_update k f (socks st a)"
  by (simp add: tcp_monitor_event_socks)

lemma tcp_shutdown_monitor_effect:
  "socks (tcp_shutdown_monitor k c f st) a = socks st a \<or>
   socks (tcp_shutdown_monitor k c f st) a = event_update k f (socks st a)"
  by (simp add: tcp_shutdown_monitor_socks)

lemma tcp_start_monitor_effect:
  "socks (snd (tcp_start_monitor k p st)) a = socks st a \<or>
   socks (snd (tcp_start_monitor k p st)) a = event_update k (TCP_CLOSE k) (socks st a)"
  using tcp_shutdown_monitor_effect [of k "s_conn (socks st p)" "TCP_CLOSE k" st a]
  by (simp add: tcp_start_monitor_socks)

lemma tcp_close_monitor_effect:
  "socks (tcp_close_monitor k p st) a = socks st a \<or>
   socks (tcp_close_monitor k p st) a = event_update k (TCP_CLOSE k) (socks st a)"
  using close_as_event [of k "socks st p" "TCP_CLOSE k"]
  by (auto simp add: tcp_close_monitor_socks)

lemma tcp_lost_connection_effect:
  "socks (tcp_lost_connection k p cb f st) a = socks st a \<or>
   socks (tcp_lost_connection k p cb f st) a = event_update k f (socks st a)"
proof -
  let ?st2 = "(case cb of None \<Rightarrow> st
         | Some c \<Rightarrow> st\<lparr>cbs := (cbs st)
             (c := (cbs st c)\<lparr>cb_flags := 0, cb_priv := None, cb_event := None\<rparr>)\<rparr>)
        \<lparr>socks := (socks st)(p := tcp_close_connection k (socks st p) f)\<rparr>"
  have s2: "socks ?st2 a = (if a = p then tcp_close_connection k (socks st p) f else socks st a)"
    by simp
  have "socks (tcp_lost_connection k p cb f st) a = socks ?st2 a \<or>
        socks (tcp_lost_connection k p cb f st) a = event_update k f (socks ?st2 a)"
    unfolding tcp_lost_connection_socks by (rule tcp_shutdown_monitor_effect)
  then show ?thesis
    unfolding s2 using close_as_event [of k "socks st p" f]
    by (auto simp add: event_update_twice)
qed

lemma event_update_other_bits:
  "other_bits k (s_flags (event_update k f s)) = other_bits k (s_flags s)"
proof -
  have a: "other_bits k ((x AND NOT (SF_CONNECTED k)) OR SF_CLOSED k) = other_bits k x" for x
    by (auto simp add: other_bits_def bit_eq_iff bit_and_iff bit_not_iff bit_or_iff)
  have b: "other_bits k (x AND NOT (SF_CONNECTED k OR SF_CLOSED k)) = other_bits k x" for x
    by (auto simp add: other_bits_def bit_eq_iff bit_and_iff bit_not_iff bit_or_iff)
  have c: "other_bits k ((x OR (SF_BOUND k OR SF_CONNECTED k)) AND NOT (SF_CLOSED k)) =
      other_bits k x" for x
    by (auto simp add: other_bits_def bit_eq_iff bit_and_iff bit_not_iff bit_or_iff)
  show ?thesis
    using a b c by (simp add: event_update_def tcp_close_connection_def)
qed

lemma nonblock_other_bits:
  assumes "defs_ok k"
  shows "f AND SF_NONBLOCK k = other_bits k f AND SF_NONBLOCK k"
proof -
  have "(SF_BOUND k OR SF_CONNECTED k OR SF_CLOSED k) AND SF_NONBLOCK k = 0"
    using defs_ok_sf [OF assms] by (simp add: bit.conj_disj_distrib2)
  then show ?thesis
    unfolding other_bits_def
    by (auto simp add: bit_eq_iff bit_and_iff bit_not_iff bit_or_iff)
qed

lemma nonblock_kept:
  assumes "defs_ok k" and "other_bits k f = other_bits k g"
  shows "SS_ISNONBLOCK k f = SS_ISNONBLOCK k g"
  using nonblock_other_bits [OF assms(1), of f] nonblock_other_bits [OF assms(1), of g]
    assms(2)
  by (simp add: SS_ISNONBLOCK_def)

lemma event_update_valid_or_same:
  assumes "defs_ok k"
  shows "flags_valid k (s_flags (event_update k f s)) \<or>
         s_flags (event_update k f s) = s_flags s"
proof -
  have c: "\<not> SS_ISCLOSED k ((x OR (SF_BOUND k OR SF_CONNECTED k)) AND NOT (SF_CLOSED k))" for x
    by (auto simp add: SS_ISCLOSED_def bit_eq_iff bit_and_iff bit_not_iff bit_or_iff)
  show ?thesis
    using close_graceful_flags(1) [OF assms] close_rude_flags(1) c
    by (simp add: event_update_def tcp_close_connection_def flags_valid_def)
qed

lemma effect_valid:
  assumes "defs_ok k" and "s' = s \<or> s' = event_update k g s"
  shows "flags_valid k (s_flags s') \<or> s_flags s' = s_flags s"
  using assms(2) event_update_valid_or_same [OF assms(1), of g s] by auto

lemma effect_other_bits:
  assumes "s' = s \<or> s' = event_update k g s"
  shows "other_bits k (s_flags s') = other_bits k (s_flags s)"
  using assms event_update_other_bits [of k g s] by auto

lemma tcp_stop_monitor_effect:
  "socks (tcp_stop_monitor k c f st) a = socks st a \<or>
   socks (tcp_stop_monitor k c f st) a = event_update k f (socks st a)"
  unfolding tcp_stop_monitor_def by (rule tcp_shutdown_monitor_effect)

lemma tcp_callback_effect:
  "socks (snd (tcp_callback k c f st)) a = socks st a \<or>
   socks (snd (tcp_callback k c f st)) a = event_update k f (socks st a)"
  by (simp add: tcp_callback_def dispatch_socks)

lemma disconn_split:
  "f AND TCP_DISCONN_EVENTS k \<noteq> 0 \<longleftrightarrow>
     f AND TCP_CLOSE k \<noteq> 0 \<or> f AND (TCP_ABORT k OR TCP_TIMEDOUT k OR NETDEV_DOWN k) \<noteq> 0"
  by (simp add: TCP_DISCONN_EVENTS_def word_and_or_nonzero)

lemma close_connection_flags:
  assumes "defs_ok k" and "f AND TCP_DISCONN_EVENTS k \<noteq> 0"
  shows "\<not> SS_ISCONNECTED k (s_flags (tcp_close_connection k s f))"
    and "SS_ISCLOSED k (s_flags (tcp_close_connection k s f)) \<longleftrightarrow> f AND TCP_CLOSE k \<noteq> 0"
  using assms(2) close_graceful_flags [OF assms(1)] close_rude_flags
  by (simp_all add: disconn_split tcp_close_connection_def)

lemma close_event_is_close:
  assumes "defs_ok k"
  shows "event_update k (TCP_CLOSE k) s = tcp_close_connection k s (TCP_CLOSE k)"
  using defs_ok_ev(1) [OF assms] by (simp add: event_update_def disconn_split)

lemma abort_event_is_close:
  assumes "defs_ok k"
  shows "event_update k (TCP_ABORT k) s = tcp_close_connection k s (TCP_ABORT k)"
  using defs_ok_ev(2) [OF assms]
  by (simp add: event_update_def disconn_split word_and_or_nonzero)

lemma tcp_start_monitor_refused:
  assumes "tcpstateflags (conns st (s_conn (socks st s))) \<noteq> TCP_ESTABLISHED k"
    and "tcpstateflags (conns st (s_conn (socks st s))) \<noteq> TCP_SYN_RCVD k"
    and "\<not> (tcpstateflags (conns st (s_conn (socks st s))) = TCP_SYN_SENT k \<and>
             SS_ISNONBLOCK k (s_flags (socks st s)))"
  shows "tcp_start_monitor k s st =
     (Inl ENOTCONN, tcp_shutdown_monitor k (s_conn (socks st s)) (TCP_CLOSE k) st)"
  using assms by (simp add: tcp_start_monitor_def Let_def)

lemma tcp_start_monitor_no_record:
  assumes "tcpstateflags (conns st (s_conn (socks st s))) = TCP_ESTABLISHED k \<or>
           tcpstateflags (conns st (s_conn (socks st s))) = TCP_SYN_RCVD k \<or>
           (tcpstateflags (conns st (s_conn (socks st s))) = TCP_SYN_SENT k \<and>
            SS_ISNONBLOCK k (s_flags (socks st s)))"
    and "cbfree st = []"
  shows "tcp_start_monitor k s st = (Inr (), st)"
  using assms by (simp add: tcp_start_monitor_def Let_def devif_callback_alloc_def)

lemma tcp_lost_connection_unfold:
  "tcp_lost_connection k s (Some cb) f st =
     tcp_shutdown_monitor k (s_conn (socks st s)) f
       (st\<lparr>cbs := (cbs st)
             (cb := (cbs st cb)\<lparr>cb_flags := 0, cb_priv := None, cb_event := None\<rparr>),
           socks := (socks st)(s := tcp_close_connection k (socks st s) f)\<rparr>)"
  by (simp add: tcp_lost_connection_def Let_def tcp_close_connection_def)

lemma find_first_record:
  assumes "find P l = Some c"
  shows "c \<in> set l" and "P c"
  using assms by (auto simp add: find_Some_iff)

lemma closed_state_unusable:
  "tcpstateflags (conns closed_state (s_conn (socks closed_state a))) \<noteq>
     TCP_ESTABLISHED sample_defs"
  "tcpstateflags (conns closed_state (s_conn (socks closed_state a))) \<noteq>
     TCP_SYN_RCVD sample_defs"
  "\<not> (tcpstateflags (conns closed_state (s_conn (socks closed_state a))) =
        TCP_SYN_SENT sample_defs \<and>
      SS_ISNONBLOCK sample_defs (s_flags (socks closed_state a)))"
  by (simp_all add: closed_state_def dup_state_def sample_defs_def)

lemma closed_state_reaches:
  "reaches closed_state (connevents (conns closed_state (s_conn (socks closed_state a))))
     (TCP_CLOSE sample_defs) b \<longleftrightarrow> b = 1 \<or> b = 2"
  by (auto simp add: closed_state_def dup_state_def sample_defs_def reaches_def)

section \<open>Starting a monitor on an unusable connection\<close>

text \<open>
  C1, as the code has it.  When the connection of socket \<open>s\<close> is neither established
  nor in \<open>SYN_RCVD\<close>, and \<open>s\<close> is not a nonblocking socket in \<open>SYN_SENT\<close>,
  \<open>tcp_start_monitor\<close> returns \<open>-ENOTCONN\<close> and leaves the callback list of the
  connection empty.  The \<open>TCP_CLOSE\<close> event goes to the records that are in the list:
  a socket \<open>a\<close> (the caller included) ends with \<open>CONNECTED\<close> clear and \<open>CLOSED\<close> set
  when a record with a handler and \<open>TCP_CLOSE\<close> in its filter is registered for it, and
  is left as it was otherwise.
\<close>

theorem tcp_start_monitor_not_connected:
  assumes "defs_ok k"
    and "tcpstateflags (conns st (s_conn (socks st s))) \<noteq> TCP_ESTABLISHED k"
    and "tcpstateflags (conns st (s_conn (socks st s))) \<noteq> TCP_SYN_RCVD k"
    and "\<not> (tcpstateflags (conns st (s_conn (socks st s))) = TCP_SYN_SENT k \<and>
             SS_ISNONBLOCK k (s_flags (socks st s)))"
  shows "fst (tcp_start_monitor k s st) = Inl ENOTCONN \<and>
         connevents (conns (snd (tcp_start_monitor k s st)) (s_conn (socks st s))) = [] \<and>
         (reaches st (connevents (conns st (s_conn (socks st s)))) (TCP_CLOSE k) a \<longrightarrow>
            socks (snd (tcp_start_monitor k s st)) a =
              tcp_close_connection k (socks st a) (TCP_CLOSE k) \<and>
            \<not> SS_ISCONNECTED k (s_flags (socks (snd (tcp_start_monitor k s st)) a)) \<and>
            SS_ISCLOSED k (s_flags (socks (snd (tcp_start_monitor k s st)) a))) \<and>
         (\<not> reaches st (connevents (conns st (s_conn (socks st s)))) (TCP_CLOSE k) a \<longrightarrow>
            socks (snd (tcp_start_monitor k s st)) a = socks st a)"
proof -
  have r: "tcp_start_monitor k s st =
     (Inl ENOTCONN, tcp_shutdown_monitor k (s_conn (socks st s)) (TCP_CLOSE k) st)"
    by (rule tcp_start_monitor_refused [OF assms(2-4)])
  have c: "TCP_CLOSE k AND TCP_CLOSE k \<noteq> 0"
    using defs_ok_ev(1) [OF assms(1)] by simp
  have g: "\<not> SS_ISCONNECTED k (s_flags (tcp_close_connection k (socks st a) (TCP_CLOSE k)))"
      "SS_ISCLOSED k (s_flags (tcp_close_connection k (socks st a) (TCP_CLOSE k)))"
    using c close_graceful_flags [OF assms(1)] by (simp_all add: tcp_close_connection_def)
  show ?thesis
    using g
    by (simp add: r tcp_shutdown_monitor_list tcp_shutdown_monitor_socks
        close_event_is_close [OF assms(1)])
qed

theorem tcp_start_monitor_not_connected_witness:
  "defs_ok sample_defs \<and>
   tcpstateflags (conns closed_state (s_conn (socks closed_state 3))) \<noteq>
     TCP_ESTABLISHED sample_defs \<and>
   tcpstateflags (conns closed_state (s_conn (socks closed_state 3))) \<noteq>
     TCP_SYN_RCVD sample_defs \<and>
   \<not> (tcpstateflags (conns closed_state (s_conn (socks closed_state 3))) =
        TCP_SYN_SENT sample_defs \<and>
      SS_ISNONBLOCK sample_defs (s_flags (socks closed_state 3))) \<and>
   fst (tcp_start_monitor sample_defs 3 closed_state) = Inl ENOTCONN \<and>
   connevents (conns (snd (tcp_start_monitor sample_defs 3 closed_state))
     (s_conn (socks closed_state 3))) = [] \<and>
   reaches closed_state (connevents (conns closed_state (s_conn (socks closed_state 3))))
     (TCP_CLOSE sample_defs) 1 \<and>
   \<not> SS_ISCONNECTED sample_defs
       (s_flags (socks (snd (tcp_start_monitor sample_defs 3 closed_state)) 1)) \<and>
   SS_ISCLOSED sample_defs
       (s_flags (socks (snd (tcp_start_monitor sample_defs 3 closed_state)) 1)) \<and>
   \<not> reaches closed_state (connevents (conns closed_state (s_conn (socks closed_state 3))))
       (TCP_CLOSE sample_defs) 3 \<and>
   socks (snd (tcp_start_monitor sample_defs 3 closed_state)) 3 = socks closed_state 3"
proof -
  have r1: "reaches closed_state
      (connevents (conns closed_state (s_conn (socks closed_state 3))))
      (TCP_CLOSE sample_defs) 1"
    and r3: "\<not> reaches closed_state
      (connevents (conns closed_state (s_conn (socks closed_state 3))))
      (TCP_CLOSE sample_defs) 3"
    by (simp_all add: closed_state_reaches)
  show ?thesis
    using sample_defs_ok closed_state_unusable [of 3] r1 r3
      tcp_start_monitor_not_connected [OF sample_defs_ok closed_state_unusable, of 3 1]
      tcp_start_monitor_not_connected [OF sample_defs_ok closed_state_unusable, of 3 3]
    by blast
qed

text \<open>
  The spec words the result as \<open>CONNECTED\<close> clear and \<open>CLOSED\<close> set for the caller.
  The function never writes the caller's flags itself; socket 3 of \<open>closed_state\<close> has
  no record in the list, gets \<open>-ENOTCONN\<close> and keeps its flags 0x48, with \<open>CONNECTED\<close>
  set and \<open>CLOSED\<close> clear.
\<close>

theorem tcp_start_monitor_leaves_caller_connected:
  "tcpstateflags (conns closed_state (s_conn (socks closed_state 3))) \<noteq>
     TCP_ESTABLISHED sample_defs \<and>
   tcpstateflags (conns closed_state (s_conn (socks closed_state 3))) \<noteq>
     TCP_SYN_RCVD sample_defs \<and>
   tcpstateflags (conns closed_state (s_conn (socks closed_state 3))) \<noteq>
     TCP_SYN_SENT sample_defs \<and>
   fst (tcp_start_monitor sample_defs 3 closed_state) = Inl ENOTCONN \<and>
   s_flags (socks (snd (tcp_start_monitor sample_defs 3 closed_state)) 3) = 0x48 \<and>
   SS_ISCONNECTED sample_defs
     (s_flags (socks (snd (tcp_start_monitor sample_defs 3 closed_state)) 3)) \<and>
   \<not> SS_ISCLOSED sample_defs
     (s_flags (socks (snd (tcp_start_monitor sample_defs 3 closed_state)) 3))"
proof -
  have r: "tcp_start_monitor sample_defs 3 closed_state =
     (Inl ENOTCONN, tcp_shutdown_monitor sample_defs (s_conn (socks closed_state 3))
        (TCP_CLOSE sample_defs) closed_state)"
    by (rule tcp_start_monitor_refused [OF closed_state_unusable])
  have s: "socks (snd (tcp_start_monitor sample_defs 3 closed_state)) 3 = socks closed_state 3"
    by (simp add: r tcp_shutdown_monitor_socks closed_state_reaches)
  have f: "s_flags (socks closed_state 3) = 0x48"
    by (simp add: closed_state_def dup_state_def)
  have e: "fst (tcp_start_monitor sample_defs 3 closed_state) = Inl ENOTCONN"
    by (simp add: r)
  have u: "tcpstateflags (conns closed_state (s_conn (socks closed_state 3))) \<noteq>
     TCP_SYN_SENT sample_defs"
    by (simp add: closed_state_def dup_state_def sample_defs_def)
  have c: "SS_ISCONNECTED sample_defs 0x48" "\<not> SS_ISCLOSED sample_defs 0x48"
    by (simp_all add: sample_defs_def SS_ISCONNECTED_def SS_ISCLOSED_def)
  show ?thesis
    using closed_state_unusable(1,2) [of 3] u e c by (simp add: s f)
qed

section \<open>CONNECTED and CLOSED are never both set\<close>

text \<open>
  C2.  No monitor operation leaves a socket with \<open>CONNECTED\<close> and \<open>CLOSED\<close> both set.
  For \<open>tcp_start_monitor\<close>, \<open>tcp_stop_monitor\<close>, \<open>tcp_close_monitor\<close>,
  \<open>tcp_lost_connection\<close>, a delivery through the callback list and one run of
  \<open>tcp_monitor_event\<close>, and for every socket address \<open>a\<close>: the flags of the socket
  after the operation are valid, or they are the flags it had before.  So a socket that
  is valid before an operation is valid after it: the state (1,1) is not reachable
  through the monitor.
\<close>

theorem monitor_never_connected_and_closed:
  assumes "defs_ok k"
  shows
   "(flags_valid k (s_flags (socks (snd (tcp_start_monitor k p st)) a)) \<or>
       s_flags (socks (snd (tcp_start_monitor k p st)) a) = s_flags (socks st a)) \<and>
    (flags_valid k (s_flags (socks (tcp_stop_monitor k c f st) a)) \<or>
       s_flags (socks (tcp_stop_monitor k c f st) a) = s_flags (socks st a)) \<and>
    (flags_valid k (s_flags (socks (tcp_close_monitor k p st) a)) \<or>
       s_flags (socks (tcp_close_monitor k p st) a) = s_flags (socks st a)) \<and>
    (flags_valid k (s_flags (socks (tcp_lost_connection k p cb f st) a)) \<or>
       s_flags (socks (tcp_lost_connection k p cb f st) a) = s_flags (socks st a)) \<and>
    (flags_valid k (s_flags (socks (snd (tcp_callback k c f st)) a)) \<or>
       s_flags (socks (snd (tcp_callback k c f st)) a) = s_flags (socks st a)) \<and>
    (flags_valid k (s_flags (socks (snd (tcp_monitor_event k pv f st)) a)) \<or>
       s_flags (socks (snd (tcp_monitor_event k pv f st)) a) = s_flags (socks st a)) \<and>
    (flags_valid k (s_flags (tcp_close_connection k (socks st a) f)) \<or>
       s_flags (tcp_close_connection k (socks st a) f) = s_flags (socks st a)) \<and>
    (flags_valid k (s_flags (socks st a)) \<longrightarrow>
       flags_valid k (s_flags (socks (snd (tcp_start_monitor k p st)) a)) \<and>
       flags_valid k (s_flags (socks (tcp_stop_monitor k c f st) a)) \<and>
       flags_valid k (s_flags (socks (tcp_close_monitor k p st) a)) \<and>
       flags_valid k (s_flags (socks (tcp_lost_connection k p cb f st) a)) \<and>
       flags_valid k (s_flags (socks (snd (tcp_callback k c f st)) a)) \<and>
       flags_valid k (s_flags (socks (snd (tcp_monitor_event k pv f st)) a)) \<and>
       flags_valid k (s_flags (tcp_close_connection k (socks st a) f)))"
proof -
  have 1: "flags_valid k (s_flags (socks (snd (tcp_start_monitor k p st)) a)) \<or>
       s_flags (socks (snd (tcp_start_monitor k p st)) a) = s_flags (socks st a)"
    by (rule effect_valid [OF assms tcp_start_monitor_effect])
  have 2: "flags_valid k (s_flags (socks (tcp_stop_monitor k c f st) a)) \<or>
       s_flags (socks (tcp_stop_monitor k c f st) a) = s_flags (socks st a)"
    by (rule effect_valid [OF assms tcp_stop_monitor_effect])
  have 3: "flags_valid k (s_flags (socks (tcp_close_monitor k p st) a)) \<or>
       s_flags (socks (tcp_close_monitor k p st) a) = s_flags (socks st a)"
    by (rule effect_valid [OF assms tcp_close_monitor_effect])
  have 4: "flags_valid k (s_flags (socks (tcp_lost_connection k p cb f st) a)) \<or>
       s_flags (socks (tcp_lost_connection k p cb f st) a) = s_flags (socks st a)"
    by (rule effect_valid [OF assms tcp_lost_connection_effect])
  have 5: "flags_valid k (s_flags (socks (snd (tcp_callback k c f st)) a)) \<or>
       s_flags (socks (snd (tcp_callback k c f st)) a) = s_flags (socks st a)"
    by (rule effect_valid [OF assms tcp_callback_effect])
  have 6: "flags_valid k (s_flags (socks (snd (tcp_monitor_event k pv f st)) a)) \<or>
       s_flags (socks (snd (tcp_monitor_event k pv f st)) a) = s_flags (socks st a)"
    by (rule effect_valid [OF assms tcp_monitor_event_effect])
  have 7: "flags_valid k (s_flags (tcp_close_connection k (socks st a) f)) \<or>
       s_flags (tcp_close_connection k (socks st a) f) = s_flags (socks st a)"
    by (rule effect_valid [OF assms close_as_event])
  have v: "flags_valid k g"
    if "flags_valid k g \<or> g = s_flags (socks st a)" and "flags_valid k (s_flags (socks st a))"
    for g
    using that by auto
  show ?thesis
    using 1 2 3 4 5 6 7 v [OF 1] v [OF 2] v [OF 3] v [OF 4] v [OF 5] v [OF 6] v [OF 7]
    by blast
qed

theorem monitor_never_connected_and_closed_witness:
  "defs_ok sample_defs \<and>
   flags_valid sample_defs (s_flags (socks dup_state 1)) \<and>
   flags_valid sample_defs
     (s_flags (socks (snd (tcp_start_monitor sample_defs 1 dup_state)) 1)) \<and>
   flags_valid sample_defs
     (s_flags (socks (tcp_stop_monitor sample_defs 0 0x40 dup_state) 1)) \<and>
   flags_valid sample_defs
     (s_flags (socks (tcp_close_monitor sample_defs 1 dup_state) 1)) \<and>
   flags_valid sample_defs
     (s_flags (socks (tcp_lost_connection sample_defs 1 (Some 10) 0x80 dup_state) 1)) \<and>
   flags_valid sample_defs
     (s_flags (socks (snd (tcp_callback sample_defs 0 0x40 dup_state)) 1)) \<and>
   flags_valid sample_defs
     (s_flags (socks (snd (tcp_monitor_event sample_defs (Some 1) 0x40 dup_state)) 1)) \<and>
   flags_valid sample_defs (s_flags (tcp_close_connection sample_defs (socks dup_state 1) 0x40))"
proof -
  have v: "flags_valid sample_defs (s_flags (socks dup_state 1))"
    by (simp add: dup_state_def sample_defs_def flags_valid_def SS_ISCONNECTED_def
        SS_ISCLOSED_def)
  show ?thesis
    using sample_defs_ok v
      monitor_never_connected_and_closed [OF sample_defs_ok,
        of 1 dup_state 1 0 "0x40" "Some 10" "Some 1"]
      monitor_never_connected_and_closed [OF sample_defs_ok,
        of 1 dup_state 1 0 "0x80" "Some 10" "Some 1"]
    by blast
qed

section \<open>The truth table of tcp_close_connection\<close>

text \<open>
  C3.  \<open>tcp_close_connection\<close> implements the truth table: when \<open>TCP_CLOSE\<close> is among
  the flags, \<open>CONNECTED\<close> is cleared and \<open>CLOSED\<close> is set, whatever else is among them
  (so the graceful branch wins over a rude bit delivered with it); when \<open>TCP_CLOSE\<close> is
  absent and one of \<open>TCP_ABORT\<close>, \<open>TCP_TIMEDOUT\<close>, \<open>NETDEV_DOWN\<close> is present, both
  \<open>CONNECTED\<close> and \<open>CLOSED\<close> are cleared.
\<close>

theorem tcp_close_connection_truth_table:
  assumes "defs_ok k"
  shows "(flags AND TCP_CLOSE k \<noteq> 0 \<longrightarrow>
            tcp_close_connection k psock flags =
              psock\<lparr>s_flags := (s_flags psock AND NOT (SF_CONNECTED k)) OR SF_CLOSED k\<rparr> \<and>
            \<not> SS_ISCONNECTED k (s_flags (tcp_close_connection k psock flags)) \<and>
            SS_ISCLOSED k (s_flags (tcp_close_connection k psock flags))) \<and>
         (flags AND TCP_CLOSE k = 0 \<and>
          (flags AND TCP_ABORT k \<noteq> 0 \<or> flags AND TCP_TIMEDOUT k \<noteq> 0 \<or>
           flags AND NETDEV_DOWN k \<noteq> 0) \<longrightarrow>
            tcp_close_connection k psock flags =
              psock\<lparr>s_flags := s_flags psock AND NOT (SF_CONNECTED k OR SF_CLOSED k)\<rparr> \<and>
            \<not> SS_ISCONNECTED k (s_flags (tcp_close_connection k psock flags)) \<and>
            \<not> SS_ISCLOSED k (s_flags (tcp_close_connection k psock flags)))"
proof (intro conjI impI)
  assume "flags AND TCP_CLOSE k \<noteq> 0"
  then have eq: "tcp_close_connection k psock flags =
      psock\<lparr>s_flags := (s_flags psock AND NOT (SF_CONNECTED k)) OR SF_CLOSED k\<rparr>"
    by (simp add: tcp_close_connection_def)
  show "tcp_close_connection k psock flags =
      psock\<lparr>s_flags := (s_flags psock AND NOT (SF_CONNECTED k)) OR SF_CLOSED k\<rparr>"
    by (rule eq)
  show "\<not> SS_ISCONNECTED k (s_flags (tcp_close_connection k psock flags))"
    using close_graceful_flags(1) [OF assms] by (simp add: eq)
  show "SS_ISCLOSED k (s_flags (tcp_close_connection k psock flags))"
    using close_graceful_flags(2) [OF assms] by (simp add: eq)
next
  assume h: "flags AND TCP_CLOSE k = 0 \<and>
    (flags AND TCP_ABORT k \<noteq> 0 \<or> flags AND TCP_TIMEDOUT k \<noteq> 0 \<or>
     flags AND NETDEV_DOWN k \<noteq> 0)"
  then have "flags AND (TCP_ABORT k OR TCP_TIMEDOUT k OR NETDEV_DOWN k) \<noteq> 0"
    by (auto simp add: word_and_or_nonzero)
  with h have eq: "tcp_close_connection k psock flags =
      psock\<lparr>s_flags := s_flags psock AND NOT (SF_CONNECTED k OR SF_CLOSED k)\<rparr>"
    by (simp add: tcp_close_connection_def)
  show "tcp_close_connection k psock flags =
      psock\<lparr>s_flags := s_flags psock AND NOT (SF_CONNECTED k OR SF_CLOSED k)\<rparr>"
    by (rule eq)
  show "\<not> SS_ISCONNECTED k (s_flags (tcp_close_connection k psock flags))"
    using close_rude_flags(1) by (simp add: eq)
  show "\<not> SS_ISCLOSED k (s_flags (tcp_close_connection k psock flags))"
    using close_rude_flags(2) by (simp add: eq)
qed

theorem tcp_close_connection_truth_table_witness:
  "defs_ok sample_defs \<and>
   (0xC0 :: 16 word) AND TCP_CLOSE sample_defs \<noteq> 0 \<and>
   (0xC0 :: 16 word) AND TCP_ABORT sample_defs \<noteq> 0 \<and>
   \<not> SS_ISCONNECTED sample_defs (s_flags (tcp_close_connection sample_defs
        \<lparr>s_flags = 0x48, s_error = 0, s_conn = 0\<rparr> 0xC0)) \<and>
   SS_ISCLOSED sample_defs (s_flags (tcp_close_connection sample_defs
        \<lparr>s_flags = 0x48, s_error = 0, s_conn = 0\<rparr> 0xC0)) \<and>
   (0x80 :: 16 word) AND TCP_CLOSE sample_defs = 0 \<and>
   (0x80 :: 16 word) AND TCP_ABORT sample_defs \<noteq> 0 \<and>
   \<not> SS_ISCONNECTED sample_defs (s_flags (tcp_close_connection sample_defs
        \<lparr>s_flags = 0xC8, s_error = 0, s_conn = 0\<rparr> 0x80)) \<and>
   \<not> SS_ISCLOSED sample_defs (s_flags (tcp_close_connection sample_defs
        \<lparr>s_flags = 0xC8, s_error = 0, s_conn = 0\<rparr> 0x80))"
proof -
  have a: "(0xC0 :: 16 word) AND TCP_CLOSE sample_defs \<noteq> 0"
    and b: "(0x80 :: 16 word) AND TCP_CLOSE sample_defs = 0"
    and c: "(0x80 :: 16 word) AND TCP_ABORT sample_defs \<noteq> 0"
    and d: "(0xC0 :: 16 word) AND TCP_ABORT sample_defs \<noteq> 0"
    by (simp_all add: sample_defs_def)
  show ?thesis
    using sample_defs_ok a b c d
      tcp_close_connection_truth_table [OF sample_defs_ok,
        of "0xC0" "\<lparr>s_flags = 0x48, s_error = 0, s_conn = 0\<rparr>"]
      tcp_close_connection_truth_table [OF sample_defs_ok,
        of "0x80" "\<lparr>s_flags = 0xC8, s_error = 0, s_conn = 0\<rparr>"]
    by blast
qed

section \<open>Lost connection\<close>

text \<open>
  C4.  With a non-null callback \<open>cb\<close>, \<open>tcp_lost_connection\<close> is the run of
  \<open>tcp_shutdown_monitor\<close> on the socket's connection, from the state in which the three
  fields of \<open>cb\<close> are zeroed and the socket's flags are updated by
  \<open>tcp_close_connection\<close>.  On return the three fields of \<open>cb\<close> are zero and the
  callback list of the connection is empty, for every flag set.  With \<open>TCP_ABORT\<close>:
  the handler of \<open>cb\<close> is null, the socket has \<open>CONNECTED\<close> and \<open>CLOSED\<close> both clear,
  and the list is empty.
\<close>

theorem tcp_lost_connection_steps:
  assumes "defs_ok k"
  shows
    "tcp_lost_connection k s (Some cb) f st =
       tcp_shutdown_monitor k (s_conn (socks st s)) f
         (st\<lparr>cbs := (cbs st)
               (cb := (cbs st cb)\<lparr>cb_flags := 0, cb_priv := None, cb_event := None\<rparr>),
             socks := (socks st)(s := tcp_close_connection k (socks st s) f)\<rparr>) \<and>
     cb_flags (cbs (tcp_lost_connection k s (Some cb) f st) cb) = 0 \<and>
     cb_priv (cbs (tcp_lost_connection k s (Some cb) f st) cb) = None \<and>
     cb_event (cbs (tcp_lost_connection k s (Some cb) f st) cb) = None \<and>
     connevents (conns (tcp_lost_connection k s (Some cb) f st) (s_conn (socks st s))) = [] \<and>
     cb_event (cbs (tcp_lost_connection k s (Some cb) (TCP_ABORT k) st) cb) = None \<and>
     \<not> SS_ISCONNECTED k
         (s_flags (socks (tcp_lost_connection k s (Some cb) (TCP_ABORT k) st) s)) \<and>
     \<not> SS_ISCLOSED k
         (s_flags (socks (tcp_lost_connection k s (Some cb) (TCP_ABORT k) st) s)) \<and>
     connevents (conns (tcp_lost_connection k s (Some cb) (TCP_ABORT k) st)
       (s_conn (socks st s))) = []"
proof -
  let ?A = "TCP_ABORT k"
  have d: "?A AND TCP_DISCONN_EVENTS k \<noteq> 0"
    using defs_ok_ev(2) [OF assms] by (simp add: disconn_split word_and_or_nonzero)
  have cl: "tcp_close_connection k x ?A =
      x\<lparr>s_flags := s_flags x AND NOT (SF_CONNECTED k OR SF_CLOSED k)\<rparr>" for x
    using defs_ok_ev(2,4) [OF assms]
    by (simp add: tcp_close_connection_def word_and_or_nonzero)
  have fl: "\<not> SS_ISCONNECTED k (s_flags (tcp_close_connection k x ?A))"
      "\<not> SS_ISCLOSED k (s_flags (tcp_close_connection k x ?A))" for x
    using close_rude_flags [of k "s_flags x"] by (simp_all add: cl)
  have s: "socks (tcp_lost_connection k s (Some cb) ?A st) s =
      tcp_close_connection k (socks st s) ?A"
    by (simp add: tcp_lost_connection_unfold tcp_shutdown_monitor_socks
        abort_event_is_close [OF assms] close_connection_twice)
  have cbs: "cbs (tcp_lost_connection k s (Some cb) g st) cb =
      (cbs st cb)\<lparr>cb_flags := 0, cb_priv := None, cb_event := None\<rparr>" for g
    by (simp add: tcp_lost_connection_unfold tcp_shutdown_monitor_cbs)
  have l: "connevents (conns (tcp_lost_connection k s (Some cb) g st)
       (s_conn (socks st s))) = []" for g
    by (simp only: tcp_lost_connection_unfold tcp_shutdown_monitor_list)
  show ?thesis
    using fl [of "socks st s"]
    by (simp add: s cbs l) (rule tcp_lost_connection_unfold)
qed

theorem tcp_lost_connection_steps_witness:
  "defs_ok sample_defs \<and>
   cb_event (cbs (tcp_lost_connection sample_defs 1 (Some 10) (TCP_ABORT sample_defs)
      dup_state) 10) = None \<and>
   \<not> SS_ISCONNECTED sample_defs
       (s_flags (socks (tcp_lost_connection sample_defs 1 (Some 10) (TCP_ABORT sample_defs)
          dup_state) 1)) \<and>
   \<not> SS_ISCLOSED sample_defs
       (s_flags (socks (tcp_lost_connection sample_defs 1 (Some 10) (TCP_ABORT sample_defs)
          dup_state) 1)) \<and>
   connevents (conns (tcp_lost_connection sample_defs 1 (Some 10) (TCP_ABORT sample_defs)
      dup_state) (s_conn (socks dup_state 1))) = []"
  using sample_defs_ok
    tcp_lost_connection_steps [OF sample_defs_ok, of 1 10 "TCP_ABORT sample_defs" dup_state]
  by blast

section \<open>Closing one of two sockets that share a connection\<close>

text \<open>
  C5.  Let \<open>s1\<close> and \<open>s2\<close> be distinct sockets, \<open>c1\<close> the first record in the list
  of \<open>s1\<close>'s connection whose \<open>priv\<close> is \<open>s1\<close>, and \<open>c2\<close> a record of that list
  whose \<open>priv\<close> is \<open>s2\<close>.  Then \<open>tcp_close_monitor\<close> on \<open>s1\<close> removes \<open>c1\<close> from the
  list and nothing else (the list is one shorter), gives \<open>c1\<close> back to the pool, leaves
  \<open>s1\<close> with \<open>CONNECTED\<close> clear and \<open>CLOSED\<close> set, leaves socket \<open>s2\<close> as it was,
  keeps \<open>c2\<close> in the list and changes no callback record.
\<close>

theorem tcp_close_monitor_one_record:
  assumes "defs_ok k" and "s1 \<noteq> s2"
    and "find (\<lambda>c. cb_priv (cbs st c) = Some s1)
           (connevents (conns st (s_conn (socks st s1)))) = Some c1"
    and "c2 \<in> set (connevents (conns st (s_conn (socks st s1))))"
    and "cb_priv (cbs st c2) = Some s2"
  shows
    "connevents (conns (tcp_close_monitor k s1 st) (s_conn (socks st s1))) =
       remove1 c1 (connevents (conns st (s_conn (socks st s1)))) \<and>
     Suc (length (connevents (conns (tcp_close_monitor k s1 st) (s_conn (socks st s1))))) =
       length (connevents (conns st (s_conn (socks st s1)))) \<and>
     cbfree (tcp_close_monitor k s1 st) = c1 # cbfree st \<and>
     \<not> SS_ISCONNECTED k (s_flags (socks (tcp_close_monitor k s1 st) s1)) \<and>
     SS_ISCLOSED k (s_flags (socks (tcp_close_monitor k s1 st) s1)) \<and>
     socks (tcp_close_monitor k s1 st) s2 = socks st s2 \<and>
     c2 \<in> set (connevents (conns (tcp_close_monitor k s1 st) (s_conn (socks st s1)))) \<and>
     cbs (tcp_close_monitor k s1 st) = cbs st"
proof -
  let ?l = "connevents (conns st (s_conn (socks st s1)))"
  have c1: "c1 \<in> set ?l" and p1: "cb_priv (cbs st c1) = Some s1"
    using find_first_record [OF assms(3)] by simp_all
  have ne: "c2 \<noteq> c1"
    using p1 assms(2,5) by auto
  have l: "connevents (conns (tcp_close_monitor k s1 st) (s_conn (socks st s1))) =
      remove1 c1 ?l"
    by (simp add: tcp_close_monitor_def Let_def assms(3) devif_conn_callback_free_def)
  have n: "Suc (length (remove1 c1 ?l)) = length ?l"
    using c1 by (simp add: length_remove1) (cases ?l; simp)
  have f: "cbfree (tcp_close_monitor k s1 st) = c1 # cbfree st"
    by (simp add: tcp_close_monitor_def Let_def assms(3) devif_conn_callback_free_def)
  have b: "cbs (tcp_close_monitor k s1 st) = cbs st"
    by (simp add: tcp_close_monitor_def Let_def assms(3) devif_conn_callback_free_def)
  have c: "TCP_CLOSE k AND TCP_CLOSE k \<noteq> 0"
    using defs_ok_ev(1) [OF assms(1)] by simp
  have g: "\<not> SS_ISCONNECTED k (s_flags (tcp_close_connection k (socks st s1) (TCP_CLOSE k)))"
      "SS_ISCLOSED k (s_flags (tcp_close_connection k (socks st s1) (TCP_CLOSE k)))"
    using c close_graceful_flags [OF assms(1)] by (simp_all add: tcp_close_connection_def)
  have m: "c2 \<in> set (remove1 c1 ?l)"
    using ne assms(4) by simp
  show ?thesis
    using g m n assms(2) by (simp add: l f b tcp_close_monitor_socks)
qed

theorem tcp_close_monitor_one_record_witness:
  "defs_ok sample_defs \<and> (1::nat) \<noteq> 2 \<and>
   find (\<lambda>c. cb_priv (cbs dup_state c) = Some 1)
     (connevents (conns dup_state (s_conn (socks dup_state 1)))) = Some 10 \<and>
   11 \<in> set (connevents (conns dup_state (s_conn (socks dup_state 1)))) \<and>
   cb_priv (cbs dup_state 11) = Some 2 \<and>
   connevents (conns (tcp_close_monitor sample_defs 1 dup_state)
     (s_conn (socks dup_state 1))) =
     remove1 10 (connevents (conns dup_state (s_conn (socks dup_state 1)))) \<and>
   cbfree (tcp_close_monitor sample_defs 1 dup_state) = 10 # cbfree dup_state \<and>
   \<not> SS_ISCONNECTED sample_defs (s_flags (socks (tcp_close_monitor sample_defs 1 dup_state) 1)) \<and>
   SS_ISCLOSED sample_defs (s_flags (socks (tcp_close_monitor sample_defs 1 dup_state) 1)) \<and>
   socks (tcp_close_monitor sample_defs 1 dup_state) 2 = socks dup_state 2 \<and>
   11 \<in> set (connevents (conns (tcp_close_monitor sample_defs 1 dup_state)
     (s_conn (socks dup_state 1))))"
proof -
  have n: "(1::nat) \<noteq> 2" by simp
  have f: "find (\<lambda>c. cb_priv (cbs dup_state c) = Some 1)
     (connevents (conns dup_state (s_conn (socks dup_state 1)))) = Some 10"
    by (simp add: dup_state_def)
  have m: "11 \<in> set (connevents (conns dup_state (s_conn (socks dup_state 1))))"
    by (simp add: dup_state_def)
  have p: "cb_priv (cbs dup_state 11) = Some 2"
    by (simp add: dup_state_def)
  show ?thesis
    using sample_defs_ok n f m p
      tcp_close_monitor_one_record [OF sample_defs_ok n f m p]
    by blast
qed

section \<open>Starting a monitor when the pool is exhausted\<close>

text \<open>
  C6, as the code has it.  When the connection is usable and the pool has no free
  record, \<open>tcp_start_monitor\<close> returns \<open>OK\<close> and leaves the whole state, the callback
  list included, as it was.  A \<open>TCP_CLOSE\<close> delivered afterwards leaves the socket's
  flags unchanged provided no record that was already in the list (with a handler and
  \<open>TCP_CLOSE\<close> in its filter) is registered for the socket.
\<close>

theorem tcp_start_monitor_pool_exhausted:
  assumes "tcpstateflags (conns st (s_conn (socks st s))) = TCP_ESTABLISHED k \<or>
           tcpstateflags (conns st (s_conn (socks st s))) = TCP_SYN_RCVD k \<or>
           (tcpstateflags (conns st (s_conn (socks st s))) = TCP_SYN_SENT k \<and>
            SS_ISNONBLOCK k (s_flags (socks st s)))"
    and "cbfree st = []"
  shows
    "fst (tcp_start_monitor k s st) = Inr () \<and>
     snd (tcp_start_monitor k s st) = st \<and>
     connevents (conns (snd (tcp_start_monitor k s st)) (s_conn (socks st s))) =
       connevents (conns st (s_conn (socks st s))) \<and>
     (\<not> reaches st (connevents (conns st (s_conn (socks st s)))) (TCP_CLOSE k) s \<longrightarrow>
        socks (snd (tcp_callback k (s_conn (socks st s)) (TCP_CLOSE k)
                 (snd (tcp_start_monitor k s st)))) s = socks st s)"
proof -
  have r: "tcp_start_monitor k s st = (Inr (), st)"
    by (rule tcp_start_monitor_no_record [OF assms])
  have d: "socks (snd (tcp_callback k (s_conn (socks st s)) (TCP_CLOSE k) st)) s = socks st s"
    if "\<not> reaches st (connevents (conns st (s_conn (socks st s)))) (TCP_CLOSE k) s"
    using that by (simp add: tcp_callback_def dispatch_socks)
  show ?thesis
    using d by (simp add: r)
qed

theorem tcp_start_monitor_pool_exhausted_witness:
  "tcpstateflags (conns dup_state (s_conn (socks dup_state 3))) = TCP_ESTABLISHED sample_defs \<and>
   cbfree dup_state = [] \<and>
   \<not> reaches dup_state (connevents (conns dup_state (s_conn (socks dup_state 3))))
       (TCP_CLOSE sample_defs) 3 \<and>
   fst (tcp_start_monitor sample_defs 3 dup_state) = Inr () \<and>
   snd (tcp_start_monitor sample_defs 3 dup_state) = dup_state \<and>
   socks (snd (tcp_callback sample_defs (s_conn (socks dup_state 3)) (TCP_CLOSE sample_defs)
            (snd (tcp_start_monitor sample_defs 3 dup_state)))) 3 = socks dup_state 3"
proof -
  have e: "tcpstateflags (conns dup_state (s_conn (socks dup_state 3))) =
      TCP_ESTABLISHED sample_defs"
    by (simp add: dup_state_def sample_defs_def)
  have p: "cbfree dup_state = []"
    by (simp add: dup_state_def)
  have r: "\<not> reaches dup_state (connevents (conns dup_state (s_conn (socks dup_state 3))))
       (TCP_CLOSE sample_defs) 3"
    by (simp add: dup_state_def reaches_def)
  show ?thesis
    using e p r tcp_start_monitor_pool_exhausted [OF disjI1 [OF e] p]
    by blast
qed

text \<open>
  The spec's wording has no such proviso.  Socket 1 of \<open>dup_state\<close> was registered
  by an earlier call; a second \<open>tcp_start_monitor\<close> finds the pool exhausted and returns
  \<open>OK\<close> without adding a record, and the \<open>TCP_CLOSE\<close> delivered afterwards reaches the
  socket through its first record: its flags go from 0x48 to 0x88.
\<close>

theorem close_reaches_socket_registered_before:
  "tcpstateflags (conns dup_state (s_conn (socks dup_state 1))) = TCP_ESTABLISHED sample_defs \<and>
   cbfree dup_state = [] \<and>
   fst (tcp_start_monitor sample_defs 1 dup_state) = Inr () \<and>
   connevents (conns (snd (tcp_start_monitor sample_defs 1 dup_state))
     (s_conn (socks dup_state 1))) = connevents (conns dup_state (s_conn (socks dup_state 1))) \<and>
   s_flags (socks dup_state 1) = 0x48 \<and>
   s_flags (socks (snd (tcp_callback sample_defs (s_conn (socks dup_state 1))
      (TCP_CLOSE sample_defs) (snd (tcp_start_monitor sample_defs 1 dup_state)))) 1) = 0x88 \<and>
   s_flags (socks (snd (tcp_callback sample_defs (s_conn (socks dup_state 1))
      (TCP_CLOSE sample_defs) (snd (tcp_start_monitor sample_defs 1 dup_state)))) 1) \<noteq>
     s_flags (socks dup_state 1)"
proof -
  have e: "tcpstateflags (conns dup_state (s_conn (socks dup_state 1))) =
      TCP_ESTABLISHED sample_defs"
    by (simp add: dup_state_def sample_defs_def)
  have p: "cbfree dup_state = []"
    by (simp add: dup_state_def)
  have t: "tcp_start_monitor sample_defs 1 dup_state = (Inr (), dup_state)"
    by (rule tcp_start_monitor_no_record [OF disjI1 [OF e] p])
  have r: "reaches dup_state (connevents (conns dup_state (s_conn (socks dup_state 1))))
       (TCP_CLOSE sample_defs) 1"
    by (simp add: dup_state_def reaches_def sample_defs_def)
  have f: "s_flags (socks dup_state 1) = 0x48"
    by (simp add: dup_state_def)
  have u: "s_flags (event_update sample_defs (TCP_CLOSE sample_defs) (socks dup_state 1)) = 0x88"
    by (simp add: close_event_is_close [OF sample_defs_ok] tcp_close_connection_def)
      (simp add: dup_state_def sample_defs_def)
  have t1: "fst (tcp_start_monitor sample_defs 1 dup_state) = Inr ()"
    and t2: "snd (tcp_start_monitor sample_defs 1 dup_state) = dup_state"
    by (simp_all only: t fst_conv snd_conv)
  have l: "connevents (conns (snd (tcp_start_monitor sample_defs 1 dup_state))
     (s_conn (socks dup_state 1))) = connevents (conns dup_state (s_conn (socks dup_state 1)))"
    by (simp only: t2)
  have a: "s_flags (socks (snd (tcp_callback sample_defs (s_conn (socks dup_state 1))
      (TCP_CLOSE sample_defs) (snd (tcp_start_monitor sample_defs 1 dup_state)))) 1) = 0x88"
    unfolding t2 tcp_callback_def dispatch_socks using r u by simp
  have ne: "s_flags (socks (snd (tcp_callback sample_defs (s_conn (socks dup_state 1))
      (TCP_CLOSE sample_defs) (snd (tcp_start_monitor sample_defs 1 dup_state)))) 1) \<noteq>
     s_flags (socks dup_state 1)"
    unfolding a f by simp
  show ?thesis
    using e p t1 l f a ne by blast
qed

section \<open>Shutdown empties the callback list\<close>

text \<open>
  C7.  After \<open>tcp_shutdown_monitor\<close> returns, and so after its wrapper
  \<open>tcp_stop_monitor\<close> returns, the callback list of the connection is empty, for every
  connection and every flag set.  The records that were in the list are back in the
  pool: the free list is the old list reversed, in front of the old free list.
\<close>

theorem tcp_shutdown_monitor_empties_list:
  "connevents (conns (tcp_shutdown_monitor k c f st) c) = [] \<and>
   connevents (conns (tcp_stop_monitor k c f st) c) = [] \<and>
   cbfree (tcp_shutdown_monitor k c f st) = rev (connevents (conns st c)) @ cbfree st \<and>
   cbfree (tcp_stop_monitor k c f st) = rev (connevents (conns st c)) @ cbfree st"
proof -
  let ?st1 = "snd (tcp_callback k c f st)"
  have walk: "connevents (conns ?st1 c) = connevents (conns st c)" "cbfree ?st1 = cbfree st"
    by (simp_all add: tcp_callback_def)
  have loop: "connevents (conns (free_connevents c ?st1) c) = []"
    "cbfree (free_connevents c ?st1) = rev (connevents (conns ?st1 c)) @ cbfree ?st1"
    by (simp_all add: free_connevents_fields)
  show ?thesis
    unfolding tcp_stop_monitor_def tcp_shutdown_monitor_def
    using loop by (simp add: walk)
qed

section \<open>Loss events win over TCP_CONNECTED\<close>

text \<open>
  C8, as the code has it.  When a delivery holds a loss event, \<open>tcp_monitor_event\<close>
  takes the loss branch only: the socket ends as \<open>tcp_close_connection\<close> leaves it,
  with its error number untouched and \<open>CONNECTED\<close> clear; \<open>CLOSED\<close> is set exactly when
  \<open>TCP_CLOSE\<close> is among the flags.  In particular \<open>TCP_CLOSE\<close> together with
  \<open>TCP_CONNECTED\<close> leaves (0,1).  The connect branch (error cleared, \<open>BOUND\<close> and
  \<open>CONNECTED\<close> set, \<open>CLOSED\<close> cleared) is taken only when no loss bit is present.
\<close>

theorem tcp_monitor_event_disconn_wins:
  assumes "defs_ok k"
  shows
   "(flags AND TCP_DISCONN_EVENTS k \<noteq> 0 \<longrightarrow>
       socks (snd (tcp_monitor_event k (Some p) flags st)) p =
         tcp_close_connection k (socks st p) flags \<and>
       s_error (socks (snd (tcp_monitor_event k (Some p) flags st)) p) =
         s_error (socks st p) \<and>
       \<not> SS_ISCONNECTED k (s_flags (socks (snd (tcp_monitor_event k (Some p) flags st)) p)) \<and>
       (SS_ISCLOSED k (s_flags (socks (snd (tcp_monitor_event k (Some p) flags st)) p)) \<longleftrightarrow>
          flags AND TCP_CLOSE k \<noteq> 0)) \<and>
    (flags AND TCP_CLOSE k \<noteq> 0 \<and> flags AND TCP_CONNECTED k \<noteq> 0 \<longrightarrow>
       \<not> SS_ISCONNECTED k (s_flags (socks (snd (tcp_monitor_event k (Some p) flags st)) p)) \<and>
       SS_ISCLOSED k (s_flags (socks (snd (tcp_monitor_event k (Some p) flags st)) p))) \<and>
    (flags AND TCP_DISCONN_EVENTS k = 0 \<and> flags AND TCP_CONNECTED k \<noteq> 0 \<longrightarrow>
       socks (snd (tcp_monitor_event k (Some p) flags st)) p =
         (socks st p)\<lparr>s_error := 0,
            s_flags := (s_flags (socks st p) OR (SF_BOUND k OR SF_CONNECTED k)) AND
                       NOT (SF_CLOSED k)\<rparr>)"
proof -
  let ?s' = "socks (snd (tcp_monitor_event k (Some p) flags st)) p"
  have d: "?s' = tcp_close_connection k (socks st p) flags"
    if "flags AND TCP_DISCONN_EVENTS k \<noteq> 0"
    using that by (simp add: tcp_monitor_event_def)
  have e: "s_error (tcp_close_connection k s flags) = s_error s" for s
    by (simp add: tcp_close_connection_def)
  have c: "?s' = (socks st p)\<lparr>s_error := 0,
            s_flags := (s_flags (socks st p) OR (SF_BOUND k OR SF_CONNECTED k)) AND
                       NOT (SF_CLOSED k)\<rparr>"
    if "flags AND TCP_DISCONN_EVENTS k = 0 \<and> flags AND TCP_CONNECTED k \<noteq> 0"
    using that by (simp add: tcp_monitor_event_def)
  have g: "flags AND TCP_DISCONN_EVENTS k \<noteq> 0" if "flags AND TCP_CLOSE k \<noteq> 0"
    using that by (simp add: disconn_split)
  show ?thesis
    using d e c g close_connection_flags [OF assms, of flags "socks st p"]
    by (intro conjI impI) (simp_all only: simp_thms)
qed

theorem tcp_monitor_event_disconn_wins_witness:
  "defs_ok sample_defs \<and>
   (0x180 :: 16 word) AND TCP_DISCONN_EVENTS sample_defs \<noteq> 0 \<and>
   (0x180 :: 16 word) AND TCP_CLOSE sample_defs = 0 \<and>
   \<not> SS_ISCONNECTED sample_defs
       (s_flags (socks (snd (tcp_monitor_event sample_defs (Some 1) 0x180 dup_state)) 1)) \<and>
   \<not> SS_ISCLOSED sample_defs
       (s_flags (socks (snd (tcp_monitor_event sample_defs (Some 1) 0x180 dup_state)) 1)) \<and>
   (0x140 :: 16 word) AND TCP_CLOSE sample_defs \<noteq> 0 \<and>
   (0x140 :: 16 word) AND TCP_CONNECTED sample_defs \<noteq> 0 \<and>
   \<not> SS_ISCONNECTED sample_defs
       (s_flags (socks (snd (tcp_monitor_event sample_defs (Some 1) 0x140 dup_state)) 1)) \<and>
   SS_ISCLOSED sample_defs
       (s_flags (socks (snd (tcp_monitor_event sample_defs (Some 1) 0x140 dup_state)) 1)) \<and>
   (0x100 :: 16 word) AND TCP_DISCONN_EVENTS sample_defs = 0 \<and>
   (0x100 :: 16 word) AND TCP_CONNECTED sample_defs \<noteq> 0 \<and>
   socks (snd (tcp_monitor_event sample_defs (Some 1) 0x100 dup_state)) 1 =
     \<lparr>s_flags = 0x68, s_error = 0, s_conn = 0\<rparr>"
proof -
  have a: "(0x180 :: 16 word) AND TCP_DISCONN_EVENTS sample_defs \<noteq> 0"
    and b: "(0x180 :: 16 word) AND TCP_CLOSE sample_defs = 0"
    and c: "(0x140 :: 16 word) AND TCP_CLOSE sample_defs \<noteq> 0"
    and d: "(0x140 :: 16 word) AND TCP_CONNECTED sample_defs \<noteq> 0"
    and e: "(0x100 :: 16 word) AND TCP_DISCONN_EVENTS sample_defs = 0"
    and f: "(0x100 :: 16 word) AND TCP_CONNECTED sample_defs \<noteq> 0"
    by (simp_all add: sample_defs_def TCP_DISCONN_EVENTS_def)
  have g: "(socks dup_state 1)\<lparr>s_error := 0,
            s_flags := (s_flags (socks dup_state 1) OR
                          (SF_BOUND sample_defs OR SF_CONNECTED sample_defs)) AND
                       NOT (SF_CLOSED sample_defs)\<rparr> =
           \<lparr>s_flags = 0x68, s_error = 0, s_conn = 0\<rparr>"
    by (simp add: sample_defs_def dup_state_def)
  have t1: "\<not> SS_ISCONNECTED sample_defs
       (s_flags (socks (snd (tcp_monitor_event sample_defs (Some 1) 0x180 dup_state)) 1)) \<and>
     \<not> SS_ISCLOSED sample_defs
       (s_flags (socks (snd (tcp_monitor_event sample_defs (Some 1) 0x180 dup_state)) 1))"
    using a b tcp_monitor_event_disconn_wins [OF sample_defs_ok, of "0x180" 1 dup_state]
    by blast
  have t2: "\<not> SS_ISCONNECTED sample_defs
       (s_flags (socks (snd (tcp_monitor_event sample_defs (Some 1) 0x140 dup_state)) 1)) \<and>
     SS_ISCLOSED sample_defs
       (s_flags (socks (snd (tcp_monitor_event sample_defs (Some 1) 0x140 dup_state)) 1))"
    using c d tcp_monitor_event_disconn_wins [OF sample_defs_ok, of "0x140" 1 dup_state]
    by blast
  have "socks (snd (tcp_monitor_event sample_defs (Some 1) 0x100 dup_state)) 1 =
      (socks dup_state 1)\<lparr>s_error := 0,
            s_flags := (s_flags (socks dup_state 1) OR
                          (SF_BOUND sample_defs OR SF_CONNECTED sample_defs)) AND
                       NOT (SF_CLOSED sample_defs)\<rparr>"
    using e f tcp_monitor_event_disconn_wins [OF sample_defs_ok, of "0x100" 1 dup_state]
    by blast
  then have t3: "socks (snd (tcp_monitor_event sample_defs (Some 1) 0x100 dup_state)) 1 =
      \<lparr>s_flags = 0x68, s_error = 0, s_conn = 0\<rparr>"
    by (simp only: g)
  show ?thesis
    using sample_defs_ok a b c d e f t1 t2 t3 by blast
qed

text \<open>
  The spec words the result as (0,1) for every delivery that holds a loss event and
  \<open>TCP_CONNECTED\<close>.  With \<open>TCP_ABORT | TCP_CONNECTED\<close> (0x180 under \<open>sample_defs\<close>) the
  loss branch is the rude one: socket 1 of \<open>dup_state\<close> goes from 0x48 to 0x08, which is
  (0,0).
\<close>

theorem abort_with_connected_not_closed:
  "(0x180 :: 16 word) AND TCP_DISCONN_EVENTS sample_defs \<noteq> 0 \<and>
   (0x180 :: 16 word) AND TCP_ABORT sample_defs \<noteq> 0 \<and>
   (0x180 :: 16 word) AND TCP_CONNECTED sample_defs \<noteq> 0 \<and>
   s_flags (socks (snd (tcp_monitor_event sample_defs (Some 1) 0x180 dup_state)) 1) = 0x08 \<and>
   \<not> (\<not> SS_ISCONNECTED sample_defs
          (s_flags (socks (snd (tcp_monitor_event sample_defs (Some 1) 0x180 dup_state)) 1)) \<and>
       SS_ISCLOSED sample_defs
          (s_flags (socks (snd (tcp_monitor_event sample_defs (Some 1) 0x180 dup_state)) 1)))"
  by (simp add: tcp_monitor_event_def tcp_close_connection_def sample_defs_def
      dup_state_def TCP_DISCONN_EVENTS_def SS_ISCONNECTED_def SS_ISCLOSED_def)

section \<open>Idempotence\<close>

text \<open>
  C9.  \<open>tcp_close_connection\<close> is idempotent: calling it a second time with the same
  event leaves the socket as the first call left it.  This holds for \<open>TCP_ABORT\<close> (the
  rude close) and for \<open>TCP_CLOSE\<close> (the graceful close).
\<close>

theorem tcp_close_connection_idem:
  "tcp_close_connection k (tcp_close_connection k psock (TCP_ABORT k)) (TCP_ABORT k) =
     tcp_close_connection k psock (TCP_ABORT k) \<and>
   tcp_close_connection k (tcp_close_connection k psock (TCP_CLOSE k)) (TCP_CLOSE k) =
     tcp_close_connection k psock (TCP_CLOSE k)"
  by (simp add: close_connection_twice)

section \<open>The monitor writes three status bits only\<close>

text \<open>
  C10.  \<open>tcp_close_connection\<close> and \<open>tcp_monitor_event\<close>, and with them every
  operation of the monitor, change no bit of a socket's status flags other than
  \<open>BOUND\<close>, \<open>CONNECTED\<close> and \<open>CLOSED\<close>: the flags with these three masked out are the
  same before and after, for every socket.  When \<open>NONBLOCK\<close> is a bit apart from the
  three, it is therefore preserved.
\<close>

theorem monitor_writes_three_bits_only:
  "other_bits k (s_flags (tcp_close_connection k s f)) = other_bits k (s_flags s) \<and>
   other_bits k (s_flags (socks (snd (tcp_monitor_event k pv f st)) a)) =
     other_bits k (s_flags (socks st a)) \<and>
   other_bits k (s_flags (socks (snd (tcp_callback k c f st)) a)) =
     other_bits k (s_flags (socks st a)) \<and>
   other_bits k (s_flags (socks (snd (tcp_start_monitor k p st)) a)) =
     other_bits k (s_flags (socks st a)) \<and>
   other_bits k (s_flags (socks (tcp_stop_monitor k c f st) a)) =
     other_bits k (s_flags (socks st a)) \<and>
   other_bits k (s_flags (socks (tcp_close_monitor k p st) a)) =
     other_bits k (s_flags (socks st a)) \<and>
   other_bits k (s_flags (socks (tcp_lost_connection k p cb f st) a)) =
     other_bits k (s_flags (socks st a)) \<and>
   (defs_ok k \<longrightarrow>
      SS_ISNONBLOCK k (s_flags (tcp_close_connection k s f)) = SS_ISNONBLOCK k (s_flags s) \<and>
      SS_ISNONBLOCK k (s_flags (socks (snd (tcp_monitor_event k pv f st)) a)) =
        SS_ISNONBLOCK k (s_flags (socks st a)) \<and>
      SS_ISNONBLOCK k (s_flags (socks (snd (tcp_callback k c f st)) a)) =
        SS_ISNONBLOCK k (s_flags (socks st a)) \<and>
      SS_ISNONBLOCK k (s_flags (socks (snd (tcp_start_monitor k p st)) a)) =
        SS_ISNONBLOCK k (s_flags (socks st a)) \<and>
      SS_ISNONBLOCK k (s_flags (socks (tcp_stop_monitor k c f st) a)) =
        SS_ISNONBLOCK k (s_flags (socks st a)) \<and>
      SS_ISNONBLOCK k (s_flags (socks (tcp_close_monitor k p st) a)) =
        SS_ISNONBLOCK k (s_flags (socks st a)) \<and>
      SS_ISNONBLOCK k (s_flags (socks (tcp_lost_connection k p cb f st) a)) =
        SS_ISNONBLOCK k (s_flags (socks st a)))"
proof -
  have 0: "other_bits k (s_flags (tcp_close_connection k s f)) = other_bits k (s_flags s)"
    by (rule effect_other_bits [OF close_as_event])
  have 1: "other_bits k (s_flags (socks (snd (tcp_monitor_event k pv f st)) a)) =
     other_bits k (s_flags (socks st a))"
    by (rule effect_other_bits [OF tcp_monitor_event_effect])
  have 2: "other_bits k (s_flags (socks (snd (tcp_callback k c f st)) a)) =
     other_bits k (s_flags (socks st a))"
    by (rule effect_other_bits [OF tcp_callback_effect])
  have 3: "other_bits k (s_flags (socks (snd (tcp_start_monitor k p st)) a)) =
     other_bits k (s_flags (socks st a))"
    by (rule effect_other_bits [OF tcp_start_monitor_effect])
  have 4: "other_bits k (s_flags (socks (tcp_stop_monitor k c f st) a)) =
     other_bits k (s_flags (socks st a))"
    by (rule effect_other_bits [OF tcp_stop_monitor_effect])
  have 5: "other_bits k (s_flags (socks (tcp_close_monitor k p st) a)) =
     other_bits k (s_flags (socks st a))"
    by (rule effect_other_bits [OF tcp_close_monitor_effect])
  have 6: "other_bits k (s_flags (socks (tcp_lost_connection k p cb f st) a)) =
     other_bits k (s_flags (socks st a))"
    by (rule effect_other_bits [OF tcp_lost_connection_effect])
  show ?thesis
    using 0 1 2 3 4 5 6
      nonblock_kept [OF _ 0] nonblock_kept [OF _ 1] nonblock_kept [OF _ 2]
      nonblock_kept [OF _ 3] nonblock_kept [OF _ 4] nonblock_kept [OF _ 5]
      nonblock_kept [OF _ 6]
    by blast
qed

theorem monitor_writes_three_bits_only_witness:
  "defs_ok sample_defs \<and>
   SS_ISNONBLOCK sample_defs (s_flags (socks dup_state 1)) \<and>
   SS_ISNONBLOCK sample_defs
     (s_flags (socks (tcp_lost_connection sample_defs 1 (Some 10) 0x80 dup_state) 1)) \<and>
   SS_ISNONBLOCK sample_defs
     (s_flags (socks (tcp_close_monitor sample_defs 1 dup_state) 1)) \<and>
   SS_ISNONBLOCK sample_defs
     (s_flags (socks (tcp_stop_monitor sample_defs 0 0x80 dup_state) 1))"
proof -
  have v: "SS_ISNONBLOCK sample_defs (s_flags (socks dup_state 1))"
    by (simp add: dup_state_def sample_defs_def SS_ISNONBLOCK_def)
  show ?thesis
    using sample_defs_ok v
      monitor_writes_three_bits_only [of sample_defs "socks dup_state 1" "0x80"
        "Some 1" dup_state 1 0 1 "Some 10"]
    by blast
qed

end
